theory Spec2Isabelle
  imports Complex_Main
begin

section \<open>Floating-point results\<close>

text \<open>
  The metrics of \<^verbatim>\<open>zenfin/stats.py\<close> are numpy/pandas computations on float64
  columns. A finite float is read as the real number it stands for (no rounding, no
  overflow); the three special results of IEEE arithmetic are kept apart, because numpy
  does not raise on a division by zero or on the square root of a negative number: it
  returns an infinity or NaN. NaN is also pandas' marker of a missing value.
  There is one zero: a zero divisor stands for +0.0, which is what \<^verbatim>\<open>abs\<close>,
  \<^verbatim>\<open>np.sqrt\<close>, a standard deviation and an observation count produce.
\<close>

datatype fl = Fin real | PInf | NInf | NaN

fun fl_neg :: "fl \<Rightarrow> fl" where
  "fl_neg (Fin x) = Fin (- x)"
| "fl_neg PInf = NInf"
| "fl_neg NInf = PInf"
| "fl_neg NaN = NaN"

fun fl_abs :: "fl \<Rightarrow> fl" where
  "fl_abs (Fin x) = Fin \<bar>x\<bar>"
| "fl_abs PInf = PInf"
| "fl_abs NInf = PInf"
| "fl_abs NaN = NaN"

fun fl_add :: "fl \<Rightarrow> fl \<Rightarrow> fl" where
  "fl_add (Fin x) (Fin y) = Fin (x + y)"
| "fl_add NaN b = NaN"
| "fl_add a NaN = NaN"
| "fl_add PInf NInf = NaN"
| "fl_add NInf PInf = NaN"
| "fl_add PInf b = PInf"
| "fl_add a PInf = PInf"
| "fl_add NInf b = NInf"
| "fl_add a NInf = NInf"

definition fl_sub :: "fl \<Rightarrow> fl \<Rightarrow> fl" where
  "fl_sub a b = fl_add a (fl_neg b)"

text \<open>The sign of an infinity times or over a finite number \<open>x\<close>; \<open>inf * 0\<close> is NaN.\<close>

definition signed_inf :: "real \<Rightarrow> fl" where
  "signed_inf x = (if 0 < x then PInf else if x < 0 then NInf else NaN)"

fun fl_mul :: "fl \<Rightarrow> fl \<Rightarrow> fl" where
  "fl_mul (Fin x) (Fin y) = Fin (x * y)"
| "fl_mul NaN b = NaN"
| "fl_mul a NaN = NaN"
| "fl_mul (Fin x) PInf = signed_inf x"
| "fl_mul (Fin x) NInf = signed_inf (- x)"
| "fl_mul PInf (Fin y) = signed_inf y"
| "fl_mul NInf (Fin y) = signed_inf (- y)"
| "fl_mul PInf PInf = PInf"
| "fl_mul PInf NInf = NInf"
| "fl_mul NInf PInf = NInf"
| "fl_mul NInf NInf = PInf"

fun fl_div :: "fl \<Rightarrow> fl \<Rightarrow> fl" where
  "fl_div (Fin x) (Fin y) = (if y \<noteq> 0 then Fin (x / y) else signed_inf x)"
| "fl_div NaN b = NaN"
| "fl_div a NaN = NaN"
| "fl_div (Fin x) PInf = Fin 0"
| "fl_div (Fin x) NInf = Fin 0"
| "fl_div PInf (Fin y) = (if 0 \<le> y then PInf else NInf)"
| "fl_div NInf (Fin y) = (if 0 \<le> y then NInf else PInf)"
| "fl_div PInf b = NaN"
| "fl_div NInf b = NaN"

fun fl_sqrt :: "fl \<Rightarrow> fl" where
  "fl_sqrt (Fin x) = (if 0 \<le> x then Fin (sqrt x) else NaN)"
| "fl_sqrt PInf = PInf"
| "fl_sqrt NInf = NaN"
| "fl_sqrt NaN = NaN"

text \<open>
  \<^verbatim>\<open>x ** y\<close> on floats (C's \<^verbatim>\<open>pow\<close>): anything to the power 0 is 1, and 1 to any
  power is 1, also for NaN; a negative base has a real power only for an integral
  exponent.
\<close>

definition is_integral :: "real \<Rightarrow> bool" where
  "is_integral e = (of_int \<lfloor>e\<rfloor> = e)"

definition pow_fin :: "real \<Rightarrow> real \<Rightarrow> fl" where
  "pow_fin b e =
     (if 0 < b then Fin (b powr e)
      else if b = 0 then (if 0 < e then Fin 0 else PInf)
      else if is_integral e then Fin ((if even \<lfloor>e\<rfloor> then 1 else - 1) * (\<bar>b\<bar> powr e))
      else NaN)"

fun fl_pow :: "fl \<Rightarrow> fl \<Rightarrow> fl" where
  "fl_pow x (Fin e) =
     (if e = 0 then Fin 1
      else case x of
        Fin b \<Rightarrow> pow_fin b e
      | PInf \<Rightarrow> (if 0 < e then PInf else Fin 0)
      | NInf \<Rightarrow> (if 0 < e then (if is_integral e \<and> odd \<lfloor>e\<rfloor> then NInf else PInf) else Fin 0)
      | NaN \<Rightarrow> NaN)"
| "fl_pow (Fin b) PInf =
     (if \<bar>b\<bar> < 1 then Fin 0 else if \<bar>b\<bar> = 1 then Fin 1 else PInf)"
| "fl_pow (Fin b) NInf =
     (if \<bar>b\<bar> < 1 then PInf else if \<bar>b\<bar> = 1 then Fin 1 else Fin 0)"
| "fl_pow (Fin b) NaN = (if b = 1 then Fin 1 else NaN)"
| "fl_pow NaN y = NaN"
| "fl_pow x NaN = NaN"
| "fl_pow PInf PInf = PInf"
| "fl_pow NInf PInf = PInf"
| "fl_pow PInf NInf = Fin 0"
| "fl_pow NInf NInf = Fin 0"

text \<open>\<^verbatim>\<open>np.sum\<close> of a list of floats; the empty sum is 0.0.\<close>

definition fl_sum :: "fl list \<Rightarrow> fl" where
  "fl_sum xs = foldr fl_add xs (Fin 0)"

section \<open>Columns and their pandas reductions\<close>

text \<open>
  A frame is processed column by column, and a metric below is the computation for one
  column: a list of finite returns in time order. On such a column
  \<^verbatim>\<open>count()\<close> and \<^verbatim>\<open>len\<close> agree. The two metrics that select columns by
  label from a concatenated frame, \<^verbatim>\<open>beta\<close> and \<^verbatim>\<open>alpha\<close>, take whole frames.
\<close>

definition count :: "real list \<Rightarrow> nat" where
  "count xs = length xs"

text \<open>\<^verbatim>\<open>Series.mean()\<close>: missing on an empty column.\<close>

definition mean :: "real list \<Rightarrow> fl" where
  "mean xs = (if xs = [] then NaN else Fin (sum_list xs / real (length xs)))"

text \<open>
  \<^verbatim>\<open>Series.std(ddof=1)\<close>, which is also the default \<^verbatim>\<open>std()\<close>: the sample
  standard deviation, missing when there are not more observations than \<open>ddof\<close>.
\<close>

definition sq_dev :: "real list \<Rightarrow> real" where
  "sq_dev xs = (let avg = sum_list xs / real (length xs) in \<Sum>x\<leftarrow>xs. (avg - x)\<^sup>2)"

definition var :: "real list \<Rightarrow> fl" where
  "var xs = (if length xs \<le> 1 then NaN else Fin (sq_dev xs / (real (length xs) - 1)))"

definition std :: "real list \<Rightarrow> fl" where
  "std xs = fl_sqrt (var xs)"

text \<open>\<^verbatim>\<open>Series.min()\<close>: missing on an empty column.\<close>

definition series_min :: "real list \<Rightarrow> fl" where
  "series_min xs = (if xs = [] then NaN else Fin (Min (set xs)))"

text \<open>
  \<^verbatim>\<open>np.cov(x, y)\<close> and \<^verbatim>\<open>DataFrame.cov()\<close> on complete columns, entry \<open>[x, y]\<close>:
  the products of the deviations are summed and multiplied by \<^verbatim>\<open>1 / fact\<close>, where
  \<^verbatim>\<open>fact = N - 1\<close>, set to 0.0 when that is not positive. The two columns are
  aligned, so they have the same length.
\<close>

definition np_cov :: "real list \<Rightarrow> real list \<Rightarrow> fl" where
  "np_cov xs ys =
     (let avg_x = sum_list xs / real (length xs);
          avg_y = sum_list ys / real (length ys);
          c = (\<Sum>(x, y)\<leftarrow>zip xs ys. (x - avg_x) * (y - avg_y));
          fact = (if real (length xs) - 1 \<le> 0 then 0 else real (length xs) - 1)
      in fl_mul (Fin c) (fl_div (Fin 1) (Fin fact)))"

text \<open>\<^verbatim>\<open>np.clip(c, -1, 1)\<close>; NaN stays NaN.\<close>

fun fl_clip :: "fl \<Rightarrow> fl" where
  "fl_clip (Fin x) = Fin (min (max x (- 1)) 1)"
| "fl_clip PInf = Fin 1"
| "fl_clip NInf = Fin (- 1)"
| "fl_clip NaN = NaN"

text \<open>
  \<^verbatim>\<open>np.corrcoef(x, y)[0, 1]\<close>: the covariance, divided by the square root of each
  variance in turn, then clipped to \<open>[-1, 1]\<close>.
\<close>

definition corrcoef :: "real list \<Rightarrow> real list \<Rightarrow> fl" where
  "corrcoef xs ys =
     (let c = np_cov xs ys;
          stddev_x = fl_sqrt (np_cov xs xs);
          stddev_y = fl_sqrt (np_cov ys ys)
      in fl_clip (fl_div (fl_div c stddev_x) stddev_y))"

text \<open>
  \<^verbatim>\<open>Series.rolling(window)\<close> followed by a reduction: position \<open>i\<close> holds the
  reduction of the \<open>window\<close> observations that end at \<open>i\<close>, and is missing while fewer
  than \<open>window\<close> observations are available (\<^verbatim>\<open>min_periods\<close> defaults to the window).
  The window is a natural number: pandas itself refuses a negative one.
\<close>

definition rolling :: "nat \<Rightarrow> (real list \<Rightarrow> fl) \<Rightarrow> real list \<Rightarrow> fl list" where
  "rolling window stat xs =
     map (\<lambda>i. if i + 1 < window then NaN
              else stat (take window (drop (i + 1 - window) xs)))
         [0..<length xs]"

section \<open>The module utils\<close>

text \<open>
  \<^verbatim>\<open>stats.py\<close> imports \<^verbatim>\<open>utils\<close>, which is not among the sources. Each metric
  that calls one of its functions takes that function as its first parameters, named as
  in the call: \<open>to_excess_returns\<close>, \<open>clean\<close>, \<open>aggregate_returns\<close>,
  \<open>to_drawdown_series\<close>. The theorems about a metric hold for every such function.
  The definitions of this section are stand-ins that instantiate the parameters in
  closed examples.
\<close>

text \<open>
  Modelled from the spec: \<^verbatim>\<open>utils.to_excess_returns\<close> is missing. The spec (4.6,
  Excess returns) has \<open>r_t - rf_t\<close>, where \<open>rf\<close> is a scalar, broadcast, or a periodic
  series, and an annualized \<open>rf\<close> is de-annualized to periodic terms using
  \<open>periods\<close> before the subtraction. The spec gives no formula for that step; the
  geometric one is taken, which leaves a zero rate at zero and is the identity for one
  period per year. A risk-free series carries the index of the returns, so the two are
  paired entry by entry.
\<close>

datatype rf = Scalar real | Series "real list"

definition deannualize :: "real \<Rightarrow> int \<Rightarrow> real" where
  "deannualize r periods = (1 + r) powr (1 / real_of_int periods) - 1"

definition utils_to_excess_returns :: "real list \<Rightarrow> rf \<Rightarrow> int \<Rightarrow> real list" where
  "utils_to_excess_returns returns rf periods =
     (case rf of
        Scalar r \<Rightarrow> map (\<lambda>x. x - deannualize r periods) returns
      | Series rs \<Rightarrow> map (\<lambda>(x, r). x - deannualize r periods) (zip returns rs))"

text \<open>
  Modelled from the spec: \<^verbatim>\<open>utils.clean\<close> is missing, and the spec does not describe
  it. The columns here hold finite returns only (no missing or infinite entry), on which
  there is nothing to clean: the stand-in returns the column as it is.
\<close>

definition utils_clean :: "real list \<Rightarrow> real list" where
  "utils_clean returns = returns"

text \<open>
  Modelled from the spec: \<^verbatim>\<open>utils.to_drawdown_series\<close> is missing. The spec (3 and
  4.2) has the cumulative curve as the running product of \<open>1 + r\<close> minus 1, the running
  peak as the maximum of the curve up to and including \<open>t\<close>, and the drawdown at \<open>t\<close>
  as curve over peak minus 1, or 0 when the peak is not positive.
\<close>

definition cumulative_curve :: "real list \<Rightarrow> real list" where
  "cumulative_curve returns =
     map (\<lambda>t. (\<Prod>r\<leftarrow>take (t + 1) returns. 1 + r) - 1) [0..<length returns]"

definition utils_to_drawdown_series :: "real list \<Rightarrow> real list" where
  "utils_to_drawdown_series returns =
     (let curve = cumulative_curve returns
      in map (\<lambda>t. let running_peak = Max (set (take (t + 1) curve))
                  in if running_peak \<le> 0 then 0 else curve ! t / running_peak - 1)
             [0..<length curve])"

section \<open>Total return and CAGR\<close>

text \<open>\<^verbatim>\<open>returns.add(1).prod() - 1\<close>\<close>

definition total_return :: "real list \<Rightarrow> real" where
  "total_return returns = prod_list (map (\<lambda>r. r + 1) returns) - 1"

text \<open>
  \<^verbatim>\<open>years\<close> is a quotient of an integer count by \<open>periods\<close>, and
  \<^verbatim>\<open>1.0 / years\<close> is infinite when \<open>years\<close> is zero. (For a single observation and a
  negative \<open>periods\<close> the code's \<open>years\<close> is -0.0; the model has one zero. No statement
  below is about that input.)
\<close>

definition cagr :: "real list \<Rightarrow> bool \<Rightarrow> int \<Rightarrow> fl" where
  "cagr returns compounded periods =
     (let total = (if compounded then total_return returns else sum_list returns);
          years = fl_div (Fin (real (count returns) - 1)) (Fin (real_of_int periods));
          res = fl_sub (fl_pow (Fin \<bar>total + 1\<bar>) (fl_div (Fin 1) years)) (Fin 1)
      in res)"

section \<open>Volatility\<close>

definition volatility :: "real list \<Rightarrow> int \<Rightarrow> bool \<Rightarrow> fl" where
  "volatility returns periods annualize =
     (let std = std returns
      in if annualize then fl_mul std (fl_sqrt (Fin (real_of_int periods))) else std)"

definition rolling_volatility :: "real list \<Rightarrow> nat \<Rightarrow> int \<Rightarrow> fl list" where
  "rolling_volatility returns rolling_period periods_per_year =
     map (\<lambda>s. fl_mul s (fl_sqrt (Fin (real_of_int periods_per_year))))
         (rolling rolling_period std returns)"

section \<open>The autocorrelation penalty\<close>

text \<open>
  \<^verbatim>\<open>returns[c][:-1]\<close> is the column without its last entry, \<^verbatim>\<open>returns[c][1:]\<close> the
  column without its first; \<^verbatim>\<open>range(1, num)\<close> is empty when \<open>num\<close> is below 2.
\<close>

definition autocorr_penalty :: "(real list \<Rightarrow> real list) \<Rightarrow> real list \<Rightarrow> fl" where
  "autocorr_penalty clean returns0 =
     (let returns = clean returns0;
          num = count returns;
          coef = fl_abs (corrcoef (butlast returns) (tl returns));
          corr = map (\<lambda>x. fl_mul (fl_div (Fin (real (num - x))) (Fin (real num)))
                                  (fl_pow coef (Fin (real x))))
                     [1..<num]
      in fl_sqrt (fl_add (Fin 1) (fl_mul (Fin 2) (fl_sum corr))))"

section \<open>Sharpe, Sortino, Omega, Calmar\<close>

definition sharpe ::
  "(real list \<Rightarrow> 'rf \<Rightarrow> int \<Rightarrow> real list) \<Rightarrow> (real list \<Rightarrow> real list) \<Rightarrow>
   real list \<Rightarrow> 'rf \<Rightarrow> int \<Rightarrow> bool \<Rightarrow> bool \<Rightarrow> fl" where
  "sharpe to_excess_returns clean returns rf periods annualize smart =
     (let excess_returns = to_excess_returns returns rf periods;
          divisor = std excess_returns;
          divisor = (if smart then fl_mul divisor (autocorr_penalty clean returns)
                     else divisor);
          res = fl_div (mean excess_returns) divisor
      in if annualize then fl_mul res (fl_sqrt (Fin (real_of_int periods))) else res)"

text \<open>
  The two rolling series carry the index of \<open>returns\<close>, and the division is entry by
  entry. The standard deviation is rolled over \<open>returns\<close>, the mean over the excess
  returns.
\<close>

definition rolling_sharpe ::
  "(real list \<Rightarrow> 'rf \<Rightarrow> int \<Rightarrow> real list) \<Rightarrow>
   real list \<Rightarrow> 'rf \<Rightarrow> nat \<Rightarrow> bool \<Rightarrow> int \<Rightarrow> fl list" where
  "rolling_sharpe to_excess_returns returns rf rolling_period annualize periods_per_year =
     (let excess_returns = to_excess_returns returns rf periods_per_year;
          res = map (\<lambda>(m, s). fl_div m s)
                    (zip (rolling rolling_period mean excess_returns)
                         (rolling rolling_period std returns))
      in if annualize
         then map (\<lambda>r. fl_mul r (fl_sqrt (Fin (real_of_int periods_per_year)))) res
         else res)"

definition sortino ::
  "(real list \<Rightarrow> 'rf \<Rightarrow> int \<Rightarrow> real list) \<Rightarrow> (real list \<Rightarrow> real list) \<Rightarrow>
   real list \<Rightarrow> 'rf \<Rightarrow> int \<Rightarrow> bool \<Rightarrow> bool \<Rightarrow> fl" where
  "sortino to_excess_returns clean returns rf periods annualize smart =
     (let excess_returns = to_excess_returns returns rf periods;
          downside = fl_sqrt (fl_div (Fin (\<Sum>x\<leftarrow>filter (\<lambda>x. x < 0) excess_returns. x\<^sup>2))
                                     (Fin (real (length excess_returns))));
          downside = (if smart then fl_mul downside (autocorr_penalty clean returns)
                      else downside);
          res = fl_div (mean excess_returns) downside
      in if annualize then fl_mul res (fl_sqrt (Fin (real_of_int periods))) else res)"

definition omega ::
  "(real list \<Rightarrow> 'rf \<Rightarrow> int \<Rightarrow> real list) \<Rightarrow> real list \<Rightarrow> 'rf \<Rightarrow> int \<Rightarrow> fl" where
  "omega to_excess_returns returns required_returns periods =
     (let returns_less_thresh = to_excess_returns returns required_returns periods;
          numer = sum_list (filter (\<lambda>x. x > 0) returns_less_thresh);
          denom = sum_list (filter (\<lambda>x. x < 0) returns_less_thresh)
      in fl_div (Fin numer) (fl_abs (Fin denom)))"

definition max_drawdown :: "(real list \<Rightarrow> real list) \<Rightarrow> real list \<Rightarrow> fl" where
  "max_drawdown to_drawdown_series returns =
     (let dd = to_drawdown_series returns in series_min dd)"

text \<open>\<^verbatim>\<open>cagr(returns)\<close> is called with its defaults: compounded, 252 periods.\<close>

definition calmar :: "(real list \<Rightarrow> real list) \<Rightarrow> real list \<Rightarrow> fl" where
  "calmar to_drawdown_series returns =
     (let cagr_ratio = cagr returns True 252;
          max_dd = max_drawdown to_drawdown_series returns
      in fl_div cagr_ratio (fl_abs max_dd))"

section \<open>Value at risk\<close>


section \<open>Win rate, risk of ruin, Kelly criterion\<close>

text \<open>
  \<^verbatim>\<open>if aggregate:\<close> is Python's truth test: \<^verbatim>\<open>None\<close> and the empty string do not
  aggregate.
\<close>

definition truthy :: "string option \<Rightarrow> bool" where
  "truthy aggregate = (case aggregate of None \<Rightarrow> False | Some a \<Rightarrow> a \<noteq> [])"

definition win_rate ::
  "(real list \<Rightarrow> string option \<Rightarrow> bool \<Rightarrow> real list) \<Rightarrow>
   real list \<Rightarrow> string option \<Rightarrow> bool \<Rightarrow> fl" where
  "win_rate aggregate_returns returns0 aggregate compounded =
     (let returns = (if truthy aggregate
                     then aggregate_returns returns0 aggregate compounded else returns0)
      in fl_div (Fin (real (count (filter (\<lambda>r. r > 0) returns))))
                (Fin (real (count (filter (\<lambda>r. r \<noteq> 0) returns)))))"

definition avg_win ::
  "(real list \<Rightarrow> string option \<Rightarrow> bool \<Rightarrow> real list) \<Rightarrow>
   real list \<Rightarrow> string option \<Rightarrow> bool \<Rightarrow> fl" where
  "avg_win aggregate_returns returns0 aggregate compounded =
     (let returns = (if truthy aggregate
                     then aggregate_returns returns0 aggregate compounded else returns0)
      in mean (filter (\<lambda>r. r > 0) returns))"

definition avg_loss ::
  "(real list \<Rightarrow> string option \<Rightarrow> bool \<Rightarrow> real list) \<Rightarrow>
   real list \<Rightarrow> string option \<Rightarrow> bool \<Rightarrow> fl" where
  "avg_loss aggregate_returns returns0 aggregate compounded =
     (let returns = (if truthy aggregate
                     then aggregate_returns returns0 aggregate compounded else returns0)
      in mean (filter (\<lambda>r. r < 0) returns))"

definition payoff_ratio ::
  "(real list \<Rightarrow> string option \<Rightarrow> bool \<Rightarrow> real list) \<Rightarrow> real list \<Rightarrow> fl" where
  "payoff_ratio aggregate_returns returns =
     fl_div (avg_win aggregate_returns returns None True)
            (fl_abs (avg_loss aggregate_returns returns None True))"

definition risk_of_ruin ::
  "(real list \<Rightarrow> string option \<Rightarrow> bool \<Rightarrow> real list) \<Rightarrow> real list \<Rightarrow> fl" where
  "risk_of_ruin aggregate_returns returns =
     (let wins = win_rate aggregate_returns returns None True
      in fl_pow (fl_div (fl_sub (Fin 1) wins) (fl_add (Fin 1) wins))
                (Fin (real (count returns))))"

definition kelly_criterion ::
  "(real list \<Rightarrow> string option \<Rightarrow> bool \<Rightarrow> real list) \<Rightarrow> real list \<Rightarrow> fl" where
  "kelly_criterion aggregate_returns returns =
     (let win_loss_ratio = payoff_ratio aggregate_returns returns;
          win_prob = win_rate aggregate_returns returns None True;
          lose_prob = fl_sub (Fin 1) win_prob
      in fl_div (fl_sub (fl_mul win_loss_ratio win_prob) lose_prob) win_loss_ratio)"

section \<open>Benchmark metrics\<close>

text \<open>
  A frame is a list of labelled columns in column order, all on one index (so of one
  length). A label may occur more than once: \<^verbatim>\<open>pd.concat\<close> keeps the labels of its
  parts as they are. A one-row result, squeezed, is a series of floats indexed by the
  column labels.
\<close>

type_synonym frame = "(string \<times> real list) list"

datatype error = ValueError | IndexError | KeyError

text \<open>
  \<^verbatim>\<open>beta\<close> concatenates the asset frame and the benchmark frame, side by side, and
  takes the covariance matrix of the result. For a label \<open>c\<close> that occurs once in the
  concatenated frame, \<^verbatim>\<open>matrix[c]\<close> is a column and \<^verbatim>\<open>matrix[c].iloc[-1]\<close> the
  covariance of \<open>c\<close> with the last column, the benchmark; \<^verbatim>\<open>matrix.iloc[-1,-1]\<close> is
  the variance of the last column. For a label that occurs more than once,
  \<^verbatim>\<open>matrix[c]\<close> is a frame of all the columns of that label, \<^verbatim>\<open>.iloc[-1]\<close> its last
  row, and \<^verbatim>\<open>res[c]\<close> a series whose index repeats \<open>c\<close>; then
  \<^verbatim>\<open>pd.DataFrame(res, index=[0])\<close> cannot reindex it and raises \<^verbatim>\<open>ValueError\<close>.
  Without an asset column the loop does not run and the result is empty.
\<close>

definition beta :: "frame \<Rightarrow> frame \<Rightarrow> error + (string \<times> fl) list" where
  "beta returns benchmark =
     (let df = returns @ benchmark;
          labels = map fst df
      in if returns = [] then Inr []
         else if \<exists>c\<in>set (map fst returns). 1 < count_list labels c then Inl ValueError
         else let last_column = snd (last df)
              in Inr (map (\<lambda>(c, column).
                            (c, fl_div (np_cov column last_column)
                                       (np_cov last_column last_column)))
                          returns))"

text \<open>
  The loop of \<^verbatim>\<open>alpha\<close>, one asset column at a time: \<^verbatim>\<open>_beta[c]\<close> looks the label
  up in the result of \<^verbatim>\<open>beta\<close> (\<^verbatim>\<open>KeyError\<close> when it is absent), and
  \<^verbatim>\<open>benchmark.mean().values[0]\<close> is the mean of the first benchmark column
  (\<^verbatim>\<open>IndexError\<close> when the benchmark has no column). The labels are distinct when
  \<^verbatim>\<open>beta\<close> has returned, so the final frame is built without error.
\<close>

fun alpha_columns ::
  "(string \<times> fl) list \<Rightarrow> frame \<Rightarrow> int \<Rightarrow> frame \<Rightarrow> error + (string \<times> fl) list" where
  "alpha_columns beta' benchmark periods [] = Inr []"
| "alpha_columns beta' benchmark periods ((c, column) # rest) =
     (case map_of beta' c of
        None \<Rightarrow> Inl KeyError
      | Some b \<Rightarrow>
          (case benchmark of
             [] \<Rightarrow> Inl IndexError
           | (l, first_column) # more \<Rightarrow>
               (case alpha_columns beta' benchmark periods rest of
                  Inl e \<Rightarrow> Inl e
                | Inr res \<Rightarrow>
                    Inr ((c, fl_mul (fl_sub (mean column) (fl_mul b (mean first_column)))
                                    (Fin (real_of_int periods))) # res))))"

definition alpha :: "frame \<Rightarrow> frame \<Rightarrow> int \<Rightarrow> error + (string \<times> fl) list" where
  "alpha returns benchmark periods =
     (case beta returns benchmark of
        Inl e \<Rightarrow> Inl e
      | Inr beta' \<Rightarrow> alpha_columns beta' benchmark periods returns)"

text \<open>
  \<^verbatim>\<open>scipy.stats.linregress(x, y)\<close>, its third result: the correlation coefficient,
  from the covariance matrix with \<^verbatim>\<open>bias=1\<close>. scipy raises \<^verbatim>\<open>ValueError\<close> on empty
  input and when all values of \<open>x\<close> are identical (with more than one); on columns of
  different lengths the covariance cannot be formed.
\<close>

definition linregress_rvalue :: "real list \<Rightarrow> real list \<Rightarrow> error + fl" where
  "linregress_rvalue x y =
     (if x = [] \<or> y = [] \<or> length x \<noteq> length y then Inl ValueError
      else if Max (set x) = Min (set x) \<and> length x > 1 then Inl ValueError
      else let n = real (length x);
               xmean = sum_list x / n;
               ymean = sum_list y / n;
               ssxm = (\<Sum>a\<leftarrow>x. (a - xmean)\<^sup>2) / n;
               ssxym = (\<Sum>(a, b)\<leftarrow>zip x y. (a - xmean) * (b - ymean)) / n;
               ssym = (\<Sum>b\<leftarrow>y. (b - ymean)\<^sup>2) / n
           in if ssxm = 0 \<or> ssym = 0 then Inr (Fin 0)
              else Inr (fl_clip (fl_div (Fin ssxym) (fl_sqrt (Fin (ssxm * ssym))))))"

definition r_squared ::
  "(real list \<Rightarrow> real list) \<Rightarrow> real list \<Rightarrow> real list \<Rightarrow> error + fl" where
  "r_squared clean returns0 benchmark0 =
     (let returns = clean returns0;
          benchmark = clean benchmark0
      in case linregress_rvalue returns benchmark of
           Inl e \<Rightarrow> Inl e
         | Inr r_val \<Rightarrow> Inr (fl_pow r_val (Fin 2)))"

section \<open>The formulas of the specification\<close>

text \<open>
  The specification's CAGR, word for word, on the reals:
  \<open>abs(total_compounded_return + 1)^(1/years) - 1\<close> with \<open>years = (n-1)/periods\<close>.
\<close>

definition cagr_spec :: "real list \<Rightarrow> int \<Rightarrow> real" where
  "cagr_spec returns periods =
     (let total_compounded_return = (\<Prod>r\<leftarrow>returns. 1 + r) - 1;
          n = length returns;
          years = (real n - 1) / real_of_int periods
      in \<bar>total_compounded_return + 1\<bar> powr (1 / years) - 1)"

text \<open>A result is within \<open>tol\<close> of a real number: it is finite and that close.\<close>

definition close_to :: "real \<Rightarrow> fl \<Rightarrow> real \<Rightarrow> bool" where
  "close_to tol a b = (case a of Fin x \<Rightarrow> \<bar>x - b\<bar> \<le> tol | _ \<Rightarrow> False)"

text \<open>
  The zero-excluding win rate: the count of the strictly positive returns over the
  count of the nonzero returns.
\<close>

definition zero_excluding_rate :: "real list \<Rightarrow> fl" where
  "zero_excluding_rate returns =
     fl_div (Fin (real (length (filter (\<lambda>r. 0 < r) returns))))
            (Fin (real (length (filter (\<lambda>r. r \<noteq> 0) returns))))"

text \<open>
  The specification's downside deviation (4.6 and glossary): \<open>sqrt(mean(min(excess,0)^2))\<close>,
  the mean being over all observations.
\<close>

definition downside_deviation :: "real list \<Rightarrow> fl" where
  "downside_deviation excess = fl_sqrt (mean (map (\<lambda>e. (min e 0)\<^sup>2) excess))"

text \<open>A column of non-degenerate variance: two of its values differ.\<close>

definition non_constant :: "real list \<Rightarrow> bool" where
  "non_constant xs = (\<exists>a\<in>set xs. \<exists>b\<in>set xs. a \<noteq> b)"

text \<open>
  The Pearson correlation coefficient of two columns of the same length: the sum of the
  products of the deviations from the means, over the product of the square roots of the
  sums of the squared deviations.
\<close>

definition pearson :: "real list \<Rightarrow> real list \<Rightarrow> real" where
  "pearson xs ys =
     (let mean_x = sum_list xs / real (length xs);
          mean_y = sum_list ys / real (length ys)
      in (\<Sum>(x, y)\<leftarrow>zip xs ys. (x - mean_x) * (y - mean_y))
         / (sqrt (\<Sum>x\<leftarrow>xs. (x - mean_x)\<^sup>2) * sqrt (\<Sum>y\<leftarrow>ys. (y - mean_y)\<^sup>2)))"

text \<open>The lag-1 autocorrelation: the column against its own one-period lag.\<close>

definition lag1_autocorr :: "real list \<Rightarrow> real" where
  "lag1_autocorr xs = pearson (butlast xs) (tl xs)"

text \<open>
  The specification's correction factor (4.5) for a coefficient \<open>rho\<close> and \<open>n\<close>
  observations: \<open>sqrt(1 + 2 * sum_{k=1}^{n-1} ((n-k)/n) * rho^k)\<close>.
\<close>

definition penalty_formula :: "real \<Rightarrow> nat \<Rightarrow> real" where
  "penalty_formula rho n = sqrt (1 + 2 * (\<Sum>k = 1..n - 1. (real (n - k) / real n) * rho ^ k))"

section \<open>CAGR\<close>

lemma pow_fin_nonneg: "0 \<le> b \<Longrightarrow> 0 < e \<Longrightarrow> pow_fin b e = Fin (b powr e)"
  by (auto simp: pow_fin_def)

lemma cagr_closed_form:
  assumes "2 \<le> length returns" and "0 < periods"
  shows "cagr returns True periods = Fin (cagr_spec returns periods)"
proof -
  define y where "y = (real (length returns) - 1) / real_of_int periods"
  define b where "b = \<bar>total_return returns + 1\<bar>"
  have y: "0 < y" using assms by (simp add: y_def)
  have e: "0 < 1 / y" using y by (simp only: zero_less_divide_1_iff)
  have years: "fl_div (Fin (real (count returns) - 1)) (Fin (real_of_int periods)) = Fin y"
    using assms(2) by (simp add: y_def count_def)
  have expo: "fl_div (Fin 1) (Fin y) = Fin (1 / y)"
    using y by simp
  have pw: "fl_pow (Fin b) (Fin (1 / y)) = Fin (b powr (1 / y))"
    using e pow_fin_nonneg [of b "1 / y"] by (simp add: b_def)
  have "cagr returns True periods
      = fl_sub (fl_pow (Fin b) (fl_div (Fin 1)
          (fl_div (Fin (real (count returns) - 1)) (Fin (real_of_int periods))))) (Fin 1)"
    by (simp only: cagr_def Let_def if_True b_def)
  also have "\<dots> = fl_sub (Fin (b powr (1 / y))) (Fin 1)"
    by (simp only: years expo pw)
  finally have "cagr returns True periods = Fin (b powr (1 / y) - 1)"
    by (simp add: fl_sub_def)
  moreover have "cagr_spec returns periods = b powr (1 / y) - 1"
    by (simp add: cagr_spec_def b_def y_def total_return_def add.commute)
  ultimately show ?thesis by simp
qed

lemma cagr_replicate:
  assumes "2 \<le> n" and "0 < periods"
  shows "cagr (replicate n c) True periods
       = Fin (\<bar>1 + c\<bar> powr (real n * real_of_int periods / (real n - 1)) - 1)"
proof -
  let ?e = "1 / ((real n - 1) / real_of_int periods)"
  have pl: "(\<Prod>r\<leftarrow>replicate n c. 1 + r) = (1 + c) ^ n"
    by (induction n) simp_all
  have "\<bar>(1 + c) ^ n\<bar> powr ?e = \<bar>1 + c\<bar> powr (real n * ?e)"
  proof (cases "1 + c = 0")
    case True
    then show ?thesis using assms by (simp add: power_0_left)
  next
    case False
    then have "0 < \<bar>1 + c\<bar>" by simp
    then have "\<bar>(1 + c) ^ n\<bar> = \<bar>1 + c\<bar> powr real n"
      by (simp add: power_abs powr_realpow)
    then show ?thesis
      by (simp only: powr_powr)
  qed
  then have "cagr_spec (replicate n c) periods
        = \<bar>1 + c\<bar> powr (real n * real_of_int periods / (real n - 1)) - 1"
    by (simp add: cagr_spec_def pl)
  then show ?thesis using cagr_closed_form [of "replicate n c" periods] assms by simp
qed

text \<open>
  Claim C3. For a series of at least two observations, compounded, \<open>cagr\<close> returns
  \<open>abs(total + 1)^(1/years) - 1\<close>, where \<open>total\<close> is the product of \<open>1 + r\<close> minus 1
  and \<open>years = (n - 1)/periods\<close>; the absolute value is taken before the power, whatever
  the sign of \<open>total + 1\<close>. The number of periods per year is positive.
\<close>

theorem cagr_compounded_formula:
  assumes "2 \<le> length returns" and "0 < periods"
  shows "cagr returns True periods = Fin (cagr_spec returns periods)"
  using assms by (rule cagr_closed_form)

text \<open>
  An instance with a negative \<open>total + 1\<close>: the returns -300\% and 100\% compound to
  \<open>(-2) * 2 - 1 = -5\<close>, and with one period per year the result is \<open>|-4|^1 - 1 = 3\<close>.
\<close>

theorem cagr_compounded_formula_witness:
  "2 \<le> length [- 3, 1 :: real] \<and> (0::int) < 1 \<and> cagr [- 3, 1] True 1 = Fin 3"
  using cagr_compounded_formula [of "[- 3, 1]" 1] by (simp add: cagr_spec_def)

text \<open>
  Claim C4, as stated: on a constant series of value \<open>c\<close>, compounded, \<open>cagr\<close> returns
  about \<open>c\<close>. It does not: two daily returns of 1\% with the default 252 periods give
  \<open>1.01^504 - 1\<close>, which is more than 5, not within 1 of 0.01.
\<close>

theorem cagr_constant_counterexample:
  "\<not> close_to 1 (cagr [1/100, 1/100] True 252) (1/100)"
proof -
  have "cagr (replicate 2 (1/100)) True 252
      = Fin (\<bar>1 + 1/100\<bar> powr (real 2 * real_of_int 252 / (real 2 - 1)) - 1)"
    by (rule cagr_replicate) simp_all
  then have c: "cagr [1/100, 1/100] True 252 = Fin ((101/100) ^ 504 - 1)"
    by (simp add: numeral_2_eq_2)
  have "1 + real 504 * (1/100) \<le> (1 + 1/100) ^ 504"
    by (rule Bernoulli_inequality) simp
  then have "(6::real) \<le> (101/100) ^ 504" by simp
  then show ?thesis unfolding c close_to_def by simp
qed

text \<open>
  Claim C4, amended: on a constant series of value \<open>c\<close> with \<open>n \<ge> 2\<close> observations,
  compounded, \<open>cagr\<close> returns \<open>|1 + c|^(n * periods / (n - 1)) - 1\<close>: the return
  compounded over a year of periods, scaled by \<open>n / (n - 1)\<close>.
\<close>

theorem cagr_constant_series:
  assumes "2 \<le> n" and "0 < periods"
  shows "cagr (replicate n c) True periods
       = Fin (\<bar>1 + c\<bar> powr (real n * real_of_int periods / (real n - 1)) - 1)"
  using assms by (rule cagr_replicate)

theorem cagr_constant_series_witness:
  "(2::nat) \<le> 2 \<and> (0::int) < 1 \<and> cagr (replicate 2 1) True 1 = Fin 3"
  using cagr_constant_series [of 2 1 1] by simp

section \<open>Win rate\<close>

lemma win_rate_None:
  "win_rate agg returns None compounded = zero_excluding_rate returns"
  by (simp add: win_rate_def zero_excluding_rate_def truthy_def count_def)

lemma filter_pos_nonneg:
  assumes "\<forall>r\<in>set xs. 0 \<le> r"
  shows "filter (\<lambda>r. r \<noteq> 0) xs = filter (\<lambda>r. 0 < r) (xs :: real list)"
  using assms by (intro filter_cong) auto

lemma zero_excluding_rate_one:
  assumes "\<forall>r\<in>set xs. 0 \<le> r" and "\<exists>r\<in>set xs. 0 < r"
  shows "zero_excluding_rate xs = Fin 1"
proof -
  have "filter (\<lambda>r. 0 < r) xs \<noteq> []"
    using assms(2) by (simp add: filter_empty_conv)
  then have "length (filter (\<lambda>r. 0 < r) xs) \<noteq> 0" by simp
  then show ?thesis
    by (simp add: zero_excluding_rate_def filter_pos_nonneg [OF assms(1)])
qed

lemma zero_excluding_rate_fin:
  assumes "\<exists>r\<in>set xs. r \<noteq> 0"
  shows "zero_excluding_rate xs
       = Fin (real (length (filter (\<lambda>r. 0 < r) xs)) / real (length (filter (\<lambda>r. r \<noteq> 0) xs)))"
proof -
  have "filter (\<lambda>r. r \<noteq> 0) xs \<noteq> []"
    using assms by (simp add: filter_empty_conv)
  then show ?thesis by (simp add: zero_excluding_rate_def)
qed

text \<open>A return of exactly zero changes neither count, so it does not change the rate.\<close>

lemma zero_excluding_rate_drop_zeros:
  "zero_excluding_rate (filter (\<lambda>r. r \<noteq> 0) returns) = zero_excluding_rate returns"
proof -
  have "filter (\<lambda>r. 0 < r) (filter (\<lambda>r. r \<noteq> 0) returns) = filter (\<lambda>r. 0 < r) returns"
    by (simp, intro filter_cong) auto
  then show ?thesis by (simp add: zero_excluding_rate_def)
qed

text \<open>
  Claim C10. Without aggregation, \<open>win_rate\<close> is the count of the strictly positive
  returns over the count of the nonzero returns (a quotient of two counts, missing when
  no return is nonzero); a series of positive and zero returns only, with a positive one
  among them, has win rate exactly 1; and \<open>risk_of_ruin\<close> and \<open>kelly_criterion\<close>
  compute with this same rate.
\<close>

theorem win_rate_excludes_zero:
  "win_rate agg returns None compounded = zero_excluding_rate returns
   \<and> ((\<exists>r\<in>set returns. r \<noteq> 0) \<longrightarrow>
        win_rate agg returns None compounded
        = Fin (real (length (filter (\<lambda>r. 0 < r) returns))
               / real (length (filter (\<lambda>r. r \<noteq> 0) returns))))
   \<and> ((\<forall>r\<in>set returns. 0 \<le> r) \<and> (\<exists>r\<in>set returns. 0 < r) \<longrightarrow>
        win_rate agg returns None compounded = Fin 1)
   \<and> risk_of_ruin agg returns
      = (let wins = zero_excluding_rate returns
         in fl_pow (fl_div (fl_sub (Fin 1) wins) (fl_add (Fin 1) wins))
                   (Fin (real (length returns))))
   \<and> kelly_criterion agg returns
      = (let win_loss_ratio = payoff_ratio agg returns;
             win_prob = zero_excluding_rate returns
         in fl_div (fl_sub (fl_mul win_loss_ratio win_prob) (fl_sub (Fin 1) win_prob))
                   win_loss_ratio)"
  by (simp add: win_rate_None zero_excluding_rate_fin zero_excluding_rate_one
      risk_of_ruin_def kelly_criterion_def count_def Let_def)

text \<open>
  Two wins and a flat period: rate 1, risk of ruin \<open>(0/2)^3 = 0\<close>. One win, one loss
  and two flat periods: rate 1/2, not 1/4.
\<close>

theorem win_rate_excludes_zero_witness:
  "\<forall>agg. win_rate agg [1, 0, 2] None True = Fin 1 \<and> risk_of_ruin agg [1, 0, 2] = Fin 0
     \<and> win_rate agg [1, 0, - 2, 0] None True = Fin (1 / 2)"
proof
  fix agg :: "real list \<Rightarrow> string option \<Rightarrow> bool \<Rightarrow> real list"
  have a: "win_rate agg [1, 0, 2] None True = Fin 1"
    using win_rate_excludes_zero [of agg "[1, 0, 2]" True]
    by (simp add: zero_excluding_rate_def)
  have b: "risk_of_ruin agg [1, 0, 2] = Fin 0"
    using win_rate_excludes_zero [of agg "[1, 0, 2]" True]
    by (simp add: zero_excluding_rate_def fl_sub_def pow_fin_def)
  have c: "win_rate agg [1, 0, - 2, 0] None True = Fin (1 / 2)"
    using win_rate_excludes_zero [of agg "[1, 0, - 2, 0]" True]
    by (simp add: zero_excluding_rate_def)
  show "win_rate agg [1, 0, 2] None True = Fin 1 \<and> risk_of_ruin agg [1, 0, 2] = Fin 0
     \<and> win_rate agg [1, 0, - 2, 0] None True = Fin (1 / 2)"
    using a b c by simp
qed

section \<open>Sortino\<close>

lemma sum_sq_negatives:
  "(\<Sum>x\<leftarrow>filter (\<lambda>x. x < 0) es. x\<^sup>2) = (\<Sum>e\<leftarrow>es. (min e 0)\<^sup>2)" for es :: "real list"
  by (induction es) (simp_all add: min_def)

lemma downside_deviation_len:
  "downside_deviation es
   = fl_sqrt (fl_div (Fin (\<Sum>x\<leftarrow>filter (\<lambda>x. x < 0) es. x\<^sup>2)) (Fin (real (length es))))"
proof (cases "es = []")
  case True
  then show ?thesis by (simp add: downside_deviation_def mean_def signed_inf_def)
next
  case False
  then show ?thesis
    by (simp add: downside_deviation_def mean_def sum_sq_negatives)
qed

lemma deannualize_zero: "deannualize 0 periods = 0"
  by (simp add: deannualize_def)

text \<open>
  Claim C1. The plain Sortino ratio (\<open>smart\<close> off) is the mean excess return over the
  downside deviation, times \<open>sqrt(periods)\<close> when annualized; and the downside deviation
  is the square root of the sum of the squared strictly negative excess returns over
  \<open>n\<close>, the number of all excess returns.
\<close>

theorem sortino_downside:
  "sortino to_excess_returns clean returns rf periods annualize False
   = (let excess = to_excess_returns returns rf periods;
          ratio = fl_div (mean excess) (downside_deviation excess)
      in if annualize then fl_mul ratio (fl_sqrt (Fin (real_of_int periods))) else ratio)
   \<and> downside_deviation (to_excess_returns returns rf periods)
   = (let excess = to_excess_returns returns rf periods;
          n = length excess
      in fl_sqrt (fl_div (Fin (\<Sum>x\<leftarrow>filter (\<lambda>x. x < 0) excess. x\<^sup>2)) (Fin (real n))))"
  by (simp add: sortino_def Let_def downside_deviation_len)

text \<open>
  Four excess returns, one of them negative: the downside deviation is
  \<open>sqrt(4/4) = 1\<close> (over the negative ones alone it would be 2) and the mean is 1, so
  the ratio is 1, and 2 when annualized with 4 periods.
\<close>

theorem sortino_downside_witness:
  "sortino utils_to_excess_returns utils_clean [- 2, 0, 0, 6] (Scalar 0) 1 False False = Fin 1
   \<and> sortino utils_to_excess_returns utils_clean [- 2, 0, 0, 6] (Scalar 0) 4 True False = Fin 2"
  using sortino_downside [of utils_to_excess_returns utils_clean "[- 2, 0, 0, 6]" "Scalar 0" 1 False]
    sortino_downside [of utils_to_excess_returns utils_clean "[- 2, 0, 0, 6]" "Scalar 0" 4 True]
  by (simp add: utils_to_excess_returns_def deannualize_zero downside_deviation_def mean_def)

text \<open>
  With \<open>smart\<close> on, the downside deviation is multiplied by the autocorrelation
  penalty of the returns before the division (specification 4.5).
\<close>

lemma sortino_smart:
  "sortino to_excess_returns clean returns rf periods annualize True
   = (let excess = to_excess_returns returns rf periods;
          ratio = fl_div (mean excess)
                    (fl_mul (downside_deviation excess) (autocorr_penalty clean returns))
      in if annualize then fl_mul ratio (fl_sqrt (Fin (real_of_int periods))) else ratio)"
  by (simp add: sortino_def Let_def downside_deviation_len)

section \<open>The autocorrelation penalty on short columns\<close>

lemma autocorr_penalty_short:
  assumes "length (clean returns) < 2"
  shows "autocorr_penalty clean returns = Fin 1"
proof -
  have "[1..<count (clean returns)] = []"
    using assms by (simp add: count_def)
  then have "autocorr_penalty clean returns
      = fl_sqrt (fl_add (Fin 1) (fl_mul (Fin 2) (fl_sum [])))"
    by (simp only: autocorr_penalty_def Let_def list.map)
  then show ?thesis
    by (simp add: fl_sum_def)
qed

lemma np_cov_single: "np_cov [a] [b] = NaN"
  by (simp add: np_cov_def signed_inf_def)

lemma corrcoef_single: "corrcoef [a] [b] = NaN"
  by (simp add: corrcoef_def np_cov_single)

text \<open>
  With exactly two observations each lagged half is a single point, the correlation is
  undefined, and so is the penalty.
\<close>

lemma autocorr_penalty_two:
  assumes "length (clean returns) = 2"
  shows "autocorr_penalty clean returns = NaN"
proof -
  obtain a b where ab: "clean returns = [a, b]"
    using assms by (cases "clean returns"; cases "tl (clean returns)") auto
  have "[1..<count (clean returns)] = [1]"
    by (simp add: ab count_def upt_rec)
  then have "autocorr_penalty clean returns
      = fl_sqrt (fl_add (Fin 1) (fl_mul (Fin 2) (fl_sum
          [fl_mul (fl_div (Fin (real (count (clean returns) - 1))) (Fin (real (count (clean returns)))))
                  (fl_pow (fl_abs (corrcoef (butlast (clean returns)) (tl (clean returns))))
                          (Fin (real (1::nat))))])))"
    by (simp only: autocorr_penalty_def Let_def list.map)
  then show ?thesis
    by (simp add: ab count_def corrcoef_single fl_sum_def)
qed

text \<open>
  Claim C7, as stated: with fewer than two observations \<open>autocorr_penalty\<close> reports a
  missing value, and not 0 or 1. On a column of one observation it reports 1.
\<close>

theorem autocorr_penalty_single_counterexample:
  "autocorr_penalty utils_clean [5] = Fin 1"
  by (simp add: autocorr_penalty_def Let_def fl_sum_def utils_clean_def count_def)

text \<open>
  Claim C7, amended: with fewer than two observations in the (cleaned) column,
  \<open>autocorr_penalty\<close> reports exactly 1: the list of lag terms is empty, its sum is 0,
  and the undefined correlation is never read.
\<close>

theorem autocorr_penalty_few_observations:
  assumes "length (clean returns) < 2"
  shows "autocorr_penalty clean returns = Fin 1"
  using assms by (rule autocorr_penalty_short)

theorem autocorr_penalty_few_observations_witness:
  "length (utils_clean []) < 2 \<and> autocorr_penalty utils_clean [] = Fin 1"
  using autocorr_penalty_few_observations [of utils_clean "[]"] by (simp add: utils_clean_def)

section \<open>Ratios over a zero denominator\<close>

lemma fl_mul_signed_inf_pos: "0 < s \<Longrightarrow> fl_mul (signed_inf m) (Fin s) = signed_inf m"
  by (simp add: signed_inf_def)

lemma std_Fin_length: "std es = Fin s \<Longrightarrow> 2 \<le> length es"
  by (cases "length es \<le> 1") (simp_all add: std_def var_def)

lemma sharpe_zero_std:
  assumes "std (tex returns rf periods) = Fin 0" and "annualize \<longrightarrow> 0 < periods"
  shows "sharpe tex clean returns rf periods annualize False
       = signed_inf (sum_list (tex returns rf periods) / real (length (tex returns rf periods)))"
proof -
  let ?es = "tex returns rf periods"
  let ?m = "sum_list ?es / real (length ?es)"
  have "2 \<le> length ?es" using assms(1) by (rule std_Fin_length)
  then have m: "mean ?es = Fin ?m" by (auto simp: mean_def)
  have q: "fl_div (mean ?es) (std ?es) = signed_inf ?m"
    by (simp add: m assms(1))
  show ?thesis
  proof (cases annualize)
    case True
    then have "0 < sqrt (real_of_int periods)" using assms(2) by simp
    then show ?thesis
      using True assms(2) by (simp add: sharpe_def Let_def q fl_mul_signed_inf_pos)
  next
    case False
    then show ?thesis by (simp add: sharpe_def Let_def q)
  qed
qed

lemma omega_zero_denom:
  assumes "sum_list (filter (\<lambda>x. x < 0) (tex returns rf periods)) = 0"
  shows "omega tex returns rf periods
       = signed_inf (sum_list (filter (\<lambda>x. 0 < x) (tex returns rf periods)))"
  using assms by (simp add: omega_def Let_def)

lemma calmar_zero_drawdown:
  assumes "max_drawdown tds returns = Fin 0" and "2 \<le> length returns"
  shows "calmar tds returns = signed_inf (cagr_spec returns 252)"
  using assms cagr_closed_form [of returns 252] by (simp add: calmar_def Let_def)

lemma excess_zero_rf:
  "utils_to_excess_returns returns (Scalar 0) periods = returns"
  by (simp add: utils_to_excess_returns_def deannualize_def)

lemma drawdown_doubling: "utils_to_drawdown_series [1, 1] = [0, 0]"
  by (simp add: utils_to_drawdown_series_def cumulative_curve_def Let_def
      upt_rec [of 0] upt_rec [of 1] upt_rec [of "Suc 0"])

text \<open>
  Claim C6, as stated: over a denominator that is exactly zero a ratio is a missing
  value, not an infinity. Two equal returns of 1 with a zero risk-free rate have excess
  returns of standard deviation exactly 0 and mean 1, and \<open>sharpe\<close> returns plus
  infinity.
\<close>

theorem sharpe_zero_std_counterexample:
  "std (utils_to_excess_returns [1, 1] (Scalar 0) 252) = Fin 0
   \<and> sharpe utils_to_excess_returns utils_clean [1, 1] (Scalar 0) 252 True False = PInf"
  by (simp add: excess_zero_rf sharpe_def Let_def std_def var_def sq_dev_def mean_def
      signed_inf_def)

text \<open>
  Claim C6, amended: over a denominator that is exactly zero each ratio is the float
  quotient of its numerator by zero (\<open>signed_inf\<close>): plus infinity for a positive
  numerator, minus infinity for a negative one, and missing only when the numerator is
  zero too. The numerator is the mean excess return for \<open>sharpe\<close> (plain, and with a
  positive \<open>periods\<close> when annualized), the sum of the positive excess returns for
  \<open>omega\<close>, and the CAGR for \<open>calmar\<close> (on two observations or more). No exception is
  raised.
\<close>

theorem zero_denominator_quotient:
  "(std (tex returns rf periods) = Fin 0 \<and> (annualize \<longrightarrow> 0 < periods) \<longrightarrow>
      sharpe tex clean returns rf periods annualize False
      = signed_inf (sum_list (tex returns rf periods) / real (length (tex returns rf periods))))
   \<and> (sum_list (filter (\<lambda>x. x < 0) (tex returns rf periods)) = 0 \<longrightarrow>
      omega tex returns rf periods
      = signed_inf (sum_list (filter (\<lambda>x. 0 < x) (tex returns rf periods))))
   \<and> (max_drawdown tds returns = Fin 0 \<and> 2 \<le> length returns \<longrightarrow>
      calmar tds returns = signed_inf (cagr_spec returns 252))"
  using sharpe_zero_std [of tex returns rf periods annualize clean]
    omega_zero_denom [of tex returns rf periods]
    calmar_zero_drawdown [of tds returns]
  by blast

text \<open>
  Instances: \<open>omega\<close> without a negative excess return is plus infinity, and missing
  when there is no positive one either; \<open>sharpe\<close> on two equal losses is minus infinity;
  \<open>calmar\<close> on a series that never draws down is plus infinity.
\<close>

theorem zero_denominator_quotient_witness:
  "omega utils_to_excess_returns [1, 0, 2] (Scalar 0) 252 = PInf
   \<and> omega utils_to_excess_returns [0, 0] (Scalar 0) 252 = NaN
   \<and> sharpe utils_to_excess_returns utils_clean [- 2, - 2] (Scalar 0) 252 False False = NInf
   \<and> calmar utils_to_drawdown_series [1, 1] = PInf"
proof -
  have a: "omega utils_to_excess_returns [1, 0, 2] (Scalar 0) 252 = PInf"
    using zero_denominator_quotient [of utils_to_excess_returns "[1, 0, 2]" "Scalar 0" 252]
    by (simp add: excess_zero_rf signed_inf_def)
  have b: "omega utils_to_excess_returns [0, 0] (Scalar 0) 252 = NaN"
    using zero_denominator_quotient [of utils_to_excess_returns "[0, 0]" "Scalar 0" 252]
    by (simp add: excess_zero_rf signed_inf_def)
  have c: "sharpe utils_to_excess_returns utils_clean [- 2, - 2] (Scalar 0) 252 False False = NInf"
    using zero_denominator_quotient
      [of utils_to_excess_returns "[- 2, - 2]" "Scalar 0" 252 False utils_clean]
    by (simp add: excess_zero_rf signed_inf_def std_def var_def sq_dev_def)
  have "(1::real) < 4 ^ 252" by (rule one_less_power) simp_all
  then have d: "calmar utils_to_drawdown_series [1, 1] = PInf"
    using zero_denominator_quotient
      [where tds = utils_to_drawdown_series and returns = "[1, 1]"
        and tex = utils_to_excess_returns and rf = "Scalar 0" and periods = 252
        and annualize = True and clean = utils_clean, THEN conjunct2, THEN conjunct2]
    by (simp add: max_drawdown_def drawdown_doubling series_min_def cagr_spec_def signed_inf_def)
  show ?thesis using a b c d by simp
qed

section \<open>Invalid parameters of volatility and value at risk\<close>

lemma sq_dev_nonneg: "0 \<le> sq_dev xs"
  by (auto intro!: sum_list_nonneg simp: sq_dev_def Let_def)






section \<open>A series as its own benchmark\<close>

lemma non_constant_length: "non_constant xs \<Longrightarrow> 2 \<le> length xs"
  by (cases xs; cases "tl xs") (auto simp: non_constant_def)

lemma sum_list_sq_zero:
  "(\<Sum>x\<leftarrow>xs. (f x)\<^sup>2) = 0 \<longleftrightarrow> (\<forall>x\<in>set xs. f x = 0)" for f :: "real \<Rightarrow> real"
proof (induction xs)
  case Nil
  then show ?case by simp
next
  case (Cons a xs)
  have "0 \<le> (\<Sum>x\<leftarrow>xs. (f x)\<^sup>2)" by (auto intro!: sum_list_nonneg)
  then show ?case using Cons by (simp add: add_nonneg_eq_0_iff)
qed

lemma sq_dev_pos:
  assumes "non_constant xs"
  shows "0 < sq_dev xs"
proof -
  let ?avg = "sum_list xs / real (length xs)"
  have "sq_dev xs \<noteq> 0"
  proof
    assume "sq_dev xs = 0"
    then have "\<forall>x\<in>set xs. ?avg - x = 0"
      by (simp add: sq_dev_def Let_def sum_list_sq_zero)
    then have "\<forall>x\<in>set xs. x = ?avg" by simp
    then show False using assms unfolding non_constant_def by metis
  qed
  then show ?thesis using sq_dev_nonneg [of xs] by simp
qed

lemma zip_self_sum:
  "(\<Sum>(x, y)\<leftarrow>zip xs xs. (x - a) * (y - a)) = (\<Sum>x\<leftarrow>xs. (a - x)\<^sup>2)" for xs :: "real list"
  by (induction xs) (simp_all add: power2_eq_square algebra_simps)

lemma np_cov_self:
  assumes "2 \<le> length xs"
  shows "np_cov xs xs = Fin (sq_dev xs / (real (length xs) - 1))"
  using assms by (simp add: np_cov_def Let_def zip_self_sum sq_dev_def)

lemma cov_quotient_self:
  assumes "non_constant xs"
  shows "fl_div (np_cov xs xs) (np_cov xs xs) = Fin 1"
proof -
  have n: "2 \<le> length xs" using assms by (rule non_constant_length)
  have "sq_dev xs / (real (length xs) - 1) \<noteq> 0"
    using n sq_dev_pos [OF assms] by simp
  then show ?thesis by (simp add: np_cov_self [OF n])
qed

text \<open>
  Identical values under a label of its own: the benchmark column is a copy of the asset
  column with another name. Then beta is 1 and alpha is 0.
\<close>

lemma beta_identical_values:
  assumes "non_constant xs" and "a \<noteq> b"
  shows "beta [(a, xs)] [(b, xs)] = Inr [(a, Fin 1)]"
  using assms by (simp add: beta_def Let_def cov_quotient_self)

lemma alpha_identical_values:
  assumes "non_constant xs" and "a \<noteq> b"
  shows "alpha [(a, xs)] [(b, xs)] periods = Inr [(a, Fin 0)]"
proof -
  have "xs \<noteq> []" using non_constant_length [OF assms(1)] by auto
  then show ?thesis
    by (simp add: alpha_def beta_identical_values [OF assms] mean_def fl_sub_def)
qed

text \<open>
  The same frame as asset and as benchmark: the label occurs twice in the concatenated
  frame, and both functions raise, whatever the values.
\<close>

lemma beta_same_label: "beta [(a, xs)] [(a, ys)] = Inl ValueError"
  by (simp add: beta_def Let_def)

lemma alpha_same_label: "alpha [(a, xs)] [(a, ys)] periods = Inl ValueError"
  by (simp add: alpha_def beta_same_label)

lemma non_constant_Max_Min:
  assumes "non_constant xs"
  shows "Max (set xs) \<noteq> Min (set xs)"
proof
  assume eq: "Max (set xs) = Min (set xs)"
  have "x = Max (set xs)" if "x \<in> set xs" for x
  proof -
    have "x \<le> Max (set xs)" "Min (set xs) \<le> x" using that by simp_all
    then show ?thesis using eq by simp
  qed
  then show False using assms by (auto simp: non_constant_def)
qed

lemma fl_clip_quotient_self: "0 < v \<Longrightarrow> fl_clip (fl_div (Fin v) (fl_sqrt (Fin (v * v)))) = Fin 1"
  by simp

lemma linregress_self:
  assumes "non_constant xs"
  shows "linregress_rvalue xs xs = Inr (Fin 1)"
proof -
  have n: "2 \<le> length xs" using assms by (rule non_constant_length)
  then have ne: "xs \<noteq> []" by auto
  let ?n = "real (length xs)"
  let ?m = "sum_list xs / ?n"
  define v where "v = (\<Sum>a\<leftarrow>xs. (a - ?m)\<^sup>2) / ?n"
  have "(\<Sum>a\<leftarrow>xs. (a - ?m)\<^sup>2) = sq_dev xs"
    by (simp add: sq_dev_def Let_def power2_commute)
  moreover have "0 < ?n" using ne by simp
  ultimately have v: "0 < v" using sq_dev_pos [OF assms] by (simp add: v_def)
  have z: "(\<Sum>(a, b)\<leftarrow>zip xs xs. (a - ?m) * (b - ?m)) / ?n = v"
    by (simp add: zip_self_sum v_def power2_commute)
  have g1: "\<not> (xs = [] \<or> xs = [] \<or> length xs \<noteq> length xs)" using ne by simp
  have g2: "\<not> (Max (set xs) = Min (set xs) \<and> length xs > 1)"
    using non_constant_Max_Min [OF assms] by simp
  have g3: "\<not> (v = 0 \<or> v = 0)" using v by simp
  have "linregress_rvalue xs xs = Inr (fl_clip (fl_div (Fin v) (fl_sqrt (Fin (v * v)))))"
    unfolding linregress_rvalue_def Let_def z v_def [symmetric]
    by (simp only: g1 g2 g3 if_False)
  then show ?thesis using v by (simp only: fl_clip_quotient_self)
qed

lemma r_squared_self:
  assumes "non_constant (clean xs)"
  shows "r_squared clean xs xs = Inr (Fin 1)"
  by (simp add: r_squared_def Let_def linregress_self [OF assms] pow_fin_def)

text \<open>
  Claim C9 fails on the code at its own input. A series used as both asset and benchmark
  is one frame passed twice: \<open>beta\<close> raises \<open>ValueError\<close>, since the asset's label
  occurs twice in the concatenated frame, and \<open>alpha\<close> raises through \<open>beta\<close>, where
  the claim has beta about 1 and alpha about 0. \<open>r_squared\<close>, which does not
  concatenate, returns 1 on the same input. (With the same values under a benchmark
  label of its own, beta is 1 and alpha is 0: lemmas \<open>beta_identical_values\<close> and
  \<open>alpha_identical_values\<close>.)
\<close>

theorem identical_frame_beta_raises:
  "beta [(''a'', [1, 2])] [(''a'', [1, 2])] = Inl ValueError
   \<and> alpha [(''a'', [1, 2])] [(''a'', [1, 2])] 252 = Inl ValueError
   \<and> r_squared utils_clean [1, 2] [1, 2] = Inr (Fin 1)"
proof -
  have "non_constant (utils_clean [1, 2])"
    by (auto simp: non_constant_def utils_clean_def)
  then have "r_squared utils_clean [1, 2] [1, 2] = Inr (Fin 1)"
    by (rule r_squared_self)
  then show ?thesis by (simp add: beta_same_label alpha_same_label)
qed

section \<open>Rolling statistics\<close>

lemma length_rolling: "length (rolling w stat xs) = length xs"
  by (simp add: rolling_def)

lemma rolling_nth:
  assumes "i < length xs"
  shows "rolling w stat xs ! i
       = (if i + 1 < w then NaN else stat (take w (drop (i + 1 - w) xs)))"
  using assms by (simp add: rolling_def)

lemma rolling_leading:
  assumes "i + 1 < w" and "i < length xs"
  shows "rolling w stat xs ! i = NaN"
  using assms by (simp add: rolling_nth)

lemma rolling_first_full:
  assumes "0 < w" and "w \<le> length xs"
  shows "rolling w stat xs ! (w - Suc 0) = stat (take w xs)"
  using assms by (simp add: rolling_nth)

lemma rolling_volatility_window:
  assumes "1 \<le> w" and "w \<le> length returns"
  shows "(\<forall>i<w - 1. rolling_volatility returns w periods ! i = NaN)
       \<and> rolling_volatility returns w periods ! (w - 1) = volatility (take w returns) periods True"
proof -
  have "rolling_volatility returns w periods ! i = NaN" if "i < w - 1" for i
  proof -
    have "i < length returns" "i + 1 < w" using that assms by simp_all
    then show ?thesis
      by (simp add: rolling_volatility_def length_rolling rolling_leading)
  qed
  moreover have "rolling_volatility returns w periods ! (w - 1)
      = volatility (take w returns) periods True"
  proof -
    have "w - 1 < length returns" using assms by simp
    then show ?thesis
      using assms by (simp add: rolling_volatility_def length_rolling rolling_first_full
          volatility_def Let_def)
  qed
  ultimately show ?thesis by blast
qed

text \<open>The leading positions of the rolling Sharpe ratio are missing for every risk-free rate.\<close>

lemma rolling_sharpe_leading:
  assumes "length (tex returns rf periods) = length returns"
    and "i + 1 < w" and "i < length returns"
  shows "rolling_sharpe tex returns rf w annualize periods ! i = NaN"
proof -
  define q where "q = map (\<lambda>(m, s). fl_div m s)
      (zip (rolling w mean (tex returns rf periods)) (rolling w std returns))"
  define k where "k = fl_sqrt (Fin (real_of_int periods))"
  have lq: "i < length q" using assms by (simp add: q_def length_rolling)
  have "q ! i = NaN" using assms by (simp add: q_def length_rolling rolling_leading)
  moreover have "rolling_sharpe tex returns rf w annualize periods
          = (if annualize then map (\<lambda>r. fl_mul r k) q else q)"
    by (simp only: rolling_sharpe_def Let_def q_def k_def)
  ultimately show ?thesis using lq by simp
qed

lemma sum_list_shift:
  "sum_list (map (\<lambda>x. x - c) xs) = sum_list xs - c * real (length xs)" for xs :: "real list"
  by (induction xs) (simp_all add: algebra_simps)

lemma sq_dev_shift: "sq_dev (map (\<lambda>x. x - c) xs) = sq_dev xs"
proof (cases "xs = []")
  case True
  then show ?thesis by (simp add: sq_dev_def)
next
  case False
  then have "sum_list (map (\<lambda>x. x - c) xs) / real (length xs)
      = sum_list xs / real (length xs) - c"
    by (simp add: sum_list_shift diff_divide_distrib)
  then show ?thesis
    by (simp add: sq_dev_def Let_def comp_def)
qed

lemma std_shift: "std (map (\<lambda>x. x - c) xs) = std xs"
  by (simp add: std_def var_def sq_dev_shift)

lemma rolling_sharpe_scalar:
  assumes tex: "\<And>ys. tex ys rf periods = map (\<lambda>x. x - c) ys"
    and "1 \<le> w" and "w \<le> length returns"
  shows "(\<forall>i<w - 1. rolling_sharpe tex returns rf w annualize periods ! i = NaN)
       \<and> rolling_sharpe tex returns rf w annualize periods ! (w - 1)
         = sharpe tex clean (take w returns) rf periods annualize False"
proof -
  define es where "es = map (\<lambda>x. x - c) returns"
  define q where
    "q = map (\<lambda>(m, s). fl_div m s) (zip (rolling w mean es) (rolling w std returns))"
  define k where "k = fl_sqrt (Fin (real_of_int periods))"
  define r where "r = fl_div (mean (map (\<lambda>x. x - c) (take w returns)))
                             (std (map (\<lambda>x. x - c) (take w returns)))"
  have les: "length es = length returns" by (simp add: es_def)
  have lq: "length q = length returns" by (simp add: q_def length_rolling les)
  have w0: "0 < w" and w1: "w - 1 < length returns" using assms by simp_all
  have q_lead: "q ! i = NaN" if "i < w - 1" for i
  proof -
    have "i < length returns" "i + 1 < w" using that assms by simp_all
    then show ?thesis by (simp add: q_def length_rolling les rolling_leading)
  qed
  have "q ! (w - 1) = fl_div (mean (take w es)) (std (take w returns))"
    using w1 w0 assms(3) by (simp add: q_def length_rolling les rolling_first_full)
  then have q_full: "q ! (w - 1) = r"
    by (simp add: r_def es_def std_shift take_map)
  have rs: "rolling_sharpe tex returns rf w annualize periods
          = (if annualize then map (\<lambda>r. fl_mul r k) q else q)"
    by (simp only: rolling_sharpe_def Let_def tex es_def q_def k_def)
  have sh: "sharpe tex clean (take w returns) rf periods annualize False
          = (if annualize then fl_mul r k else r)"
    by (simp only: sharpe_def Let_def tex r_def k_def if_False)
  have "rolling_sharpe tex returns rf w annualize periods ! i = NaN" if "i < w - 1" for i
  proof -
    have "i < length q" using that w1 lq by simp
    then show ?thesis using q_lead [OF that] by (simp add: rs)
  qed
  moreover have "rolling_sharpe tex returns rf w annualize periods ! (w - 1)
       = sharpe tex clean (take w returns) rf periods annualize False"
  proof -
    have "w - 1 < length q" using w1 lq by simp
    then show ?thesis using q_full by (simp add: rs sh)
  qed
  ultimately show ?thesis by blast
qed

lemma deannualize_one: "- 1 < r \<Longrightarrow> deannualize r 1 = r"
  by (simp add: deannualize_def)

lemma excess_series_rf: "utils_to_excess_returns [1, 3, 5] (Series [0, 1, 2]) 1 = [1, 2, 3]"
  by (simp add: utils_to_excess_returns_def deannualize_one)

text \<open>
  Claim C5 holds for \<open>rolling_volatility\<close> (lemma \<open>rolling_volatility_window\<close>) and
  for \<open>rolling_sharpe\<close> when the risk-free rate shifts every return by the same amount
  (lemma \<open>rolling_sharpe_scalar\<close>), since a shift leaves the standard deviation
  unchanged. It fails for \<open>rolling_sharpe\<close> with a risk-free series: the rolling
  standard deviation is taken over \<open>returns\<close>, where \<open>sharpe\<close> takes it over the
  excess returns. With returns 1, 3, 5 and periodic risk-free rates 0, 1, 2 the excess
  returns are 1, 2, 3: their mean is 2, their standard deviation 1, that of the returns
  2. At index 2 the rolling Sharpe of window 3 is 1; the Sharpe ratio of the same three
  observations is 2.
\<close>

theorem rolling_sharpe_series_rf:
  "rolling_sharpe utils_to_excess_returns [1, 3, 5] (Series [0, 1, 2]) 3 True 1 ! 2 = Fin 1
   \<and> sharpe utils_to_excess_returns utils_clean (take 3 [1, 3, 5]) (Series [0, 1, 2]) 1 True False
     = Fin 2"
  by (simp add: rolling_sharpe_def sharpe_def Let_def excess_series_rf rolling_def mean_def
      std_def var_def sq_dev_def upt_rec [of 0] upt_rec [of 1] upt_rec [of 2] upt_rec [of "Suc 0"])

section \<open>The autocorrelation penalty and the Pearson coefficient\<close>

text \<open>
  The Cauchy-Schwarz inequality for two lists, from the sum of the squares
  \<open>(b * u - s * v)^2\<close>: it keeps the correlation within \<open>[-1, 1]\<close>, so that numpy's
  clipping changes nothing.
\<close>

lemma cs_identity:
  fixes us vs :: "real list"
  assumes "length us = length vs"
  shows "(\<Sum>(u, v)\<leftarrow>zip us vs. (b * u - s * v)\<^sup>2)
       = b\<^sup>2 * (\<Sum>u\<leftarrow>us. u\<^sup>2) - 2 * b * s * (\<Sum>(u, v)\<leftarrow>zip us vs. u * v)
         + s\<^sup>2 * (\<Sum>v\<leftarrow>vs. v\<^sup>2)"
  using assms by (induction us vs rule: list_induct2) (simp_all add: power2_eq_square algebra_simps)

lemma cauchy_schwarz_list:
  fixes us vs :: "real list"
  assumes "length us = length vs" and "0 < (\<Sum>v\<leftarrow>vs. v\<^sup>2)"
  shows "(\<Sum>(u, v)\<leftarrow>zip us vs. u * v)\<^sup>2 \<le> (\<Sum>u\<leftarrow>us. u\<^sup>2) * (\<Sum>v\<leftarrow>vs. v\<^sup>2)"
proof -
  define A where "A = (\<Sum>u\<leftarrow>us. u\<^sup>2)"
  define B where "B = (\<Sum>v\<leftarrow>vs. v\<^sup>2)"
  define S where "S = (\<Sum>(u, v)\<leftarrow>zip us vs. u * v)"
  have "0 \<le> (\<Sum>(u, v)\<leftarrow>zip us vs. (B * u - S * v)\<^sup>2)"
    by (auto intro!: sum_list_nonneg)
  also have "\<dots> = B\<^sup>2 * A - 2 * B * S * S + S\<^sup>2 * B"
    by (simp only: cs_identity [OF assms(1)] A_def B_def S_def)
  also have "\<dots> = B * (A * B - S\<^sup>2)"
    by (simp add: power2_eq_square algebra_simps)
  finally have "0 \<le> B * (A * B - S\<^sup>2)" .
  moreover have "0 < B" using assms(2) by (simp add: B_def)
  ultimately have "0 \<le> A * B - S\<^sup>2" by (simp add: zero_le_mult_iff)
  then show ?thesis by (simp add: A_def B_def S_def)
qed


lemma zip_dev_sum:
  "(\<Sum>(x, y)\<leftarrow>zip xs ys. (x - a) * (y - b))
   = (\<Sum>(u, v)\<leftarrow>zip (map (\<lambda>x. x - a) xs) (map (\<lambda>y. y - b) ys). u * v)"
  for xs ys :: "real list"
  by (simp add: zip_map_map case_prod_unfold comp_def)

lemma dev_sq_sum: "(\<Sum>u\<leftarrow>map (\<lambda>x. x - a) xs. u\<^sup>2) = (\<Sum>x\<leftarrow>xs. (x - a)\<^sup>2)"
  for xs :: "real list"
  by (simp add: comp_def)

lemma dev_sq_pos:
  assumes "non_constant xs"
  shows "0 < (\<Sum>x\<leftarrow>xs. (x - sum_list xs / real (length xs))\<^sup>2)"
  using sq_dev_pos [OF assms] by (simp add: sq_dev_def Let_def power2_commute)

lemma np_cov_fin:
  assumes "2 \<le> length xs"
  shows "np_cov xs ys
       = Fin ((\<Sum>(x, y)\<leftarrow>zip xs ys. (x - sum_list xs / real (length xs))
                                   * (y - sum_list ys / real (length ys)))
              / (real (length xs) - 1))"
  using assms by (simp add: np_cov_def Let_def)

lemma corrcoef_pearson:
  assumes len: "length xs = length ys" and nx: "non_constant xs" and ny: "non_constant ys"
  shows "corrcoef xs ys = Fin (pearson xs ys)"
proof -
  define mx where "mx = sum_list xs / real (length xs)"
  define my where "my = sum_list ys / real (length ys)"
  define S where "S = (\<Sum>(x, y)\<leftarrow>zip xs ys. (x - mx) * (y - my))"
  define A where "A = (\<Sum>x\<leftarrow>xs. (x - mx)\<^sup>2)"
  define B where "B = (\<Sum>y\<leftarrow>ys. (y - my)\<^sup>2)"
  define m where "m = real (length xs) - 1"
  have n2: "2 \<le> length xs" "2 \<le> length ys"
    using nx ny by (simp_all add: non_constant_length)
  have m: "0 < m" using n2 by (simp add: m_def)
  have A: "0 < A" using dev_sq_pos [OF nx] by (simp add: A_def mx_def)
  have B: "0 < B" using dev_sq_pos [OF ny] by (simp add: B_def my_def)
  have cs: "S\<^sup>2 \<le> A * B"
  proof -
    have "length (map (\<lambda>x. x - mx) xs) = length (map (\<lambda>y. y - my) ys)"
      using len by simp
    moreover have "0 < (\<Sum>v\<leftarrow>map (\<lambda>y. y - my) ys. v\<^sup>2)"
      using B by (simp add: B_def comp_def)
    ultimately have "(\<Sum>(u, v)\<leftarrow>zip (map (\<lambda>x. x - mx) xs) (map (\<lambda>y. y - my) ys). u * v)\<^sup>2
        \<le> (\<Sum>u\<leftarrow>map (\<lambda>x. x - mx) xs. u\<^sup>2) * (\<Sum>v\<leftarrow>map (\<lambda>y. y - my) ys. v\<^sup>2)"
      by (rule cauchy_schwarz_list)
    then show ?thesis
      by (simp only: zip_dev_sum [symmetric] dev_sq_sum S_def A_def B_def)
  qed
  have cxy: "np_cov xs ys = Fin (S / m)"
    using np_cov_fin [OF n2(1), of ys] by (simp add: S_def m_def mx_def my_def)
  have cxx: "np_cov xs xs = Fin (A / m)"
    using np_cov_fin [OF n2(1), of xs]
    by (simp add: A_def m_def mx_def zip_self_sum power2_commute)
  have cyy: "np_cov ys ys = Fin (B / m)"
    using np_cov_fin [OF n2(2), of ys] len
    by (simp add: B_def m_def my_def zip_self_sum power2_commute)
  have sx: "fl_sqrt (np_cov xs xs) = Fin (sqrt (A / m))" using A m by (simp add: cxx)
  have sy: "fl_sqrt (np_cov ys ys) = Fin (sqrt (B / m))" using B m by (simp add: cyy)
  have sxp: "0 < sqrt (A / m)" and syp: "0 < sqrt (B / m)" using A B m by simp_all
  have q: "fl_div (fl_div (np_cov xs ys) (fl_sqrt (np_cov xs xs))) (fl_sqrt (np_cov ys ys))
         = Fin (S / m / sqrt (A / m) / sqrt (B / m))"
    using A B m by (simp add: cxy sx sy)
  have "sqrt (A / m) * sqrt (B / m) = sqrt A * sqrt B / m"
    using m by (simp add: real_sqrt_divide real_sqrt_mult [symmetric] power2_eq_square [symmetric])
  then have "S / m / sqrt (A / m) / sqrt (B / m) = S / (sqrt A * sqrt B)"
    using m by (simp add: field_simps)
  then have r: "S / m / sqrt (A / m) / sqrt (B / m) = pearson xs ys"
    by (simp add: pearson_def Let_def S_def A_def B_def mx_def my_def)
  have "\<bar>S\<bar> \<le> sqrt (A * B)"
    using cs by (metis real_sqrt_abs real_sqrt_le_iff)
  then have "\<bar>S / (sqrt A * sqrt B)\<bar> \<le> 1"
    using A B by (simp add: real_sqrt_mult)
  then have "\<bar>pearson xs ys\<bar> \<le> 1"
    by (simp add: pearson_def Let_def S_def A_def B_def mx_def my_def)
  then have "- 1 \<le> pearson xs ys" "pearson xs ys \<le> 1" by linarith+
  then have "fl_clip (Fin (pearson xs ys)) = Fin (pearson xs ys)"
    by simp
  then show ?thesis
    by (simp only: corrcoef_def Let_def q r)
qed


lemma fl_sum_Fin: "fl_sum (map (\<lambda>k. Fin (f k)) ks) = Fin (sum_list (map f ks))"
  by (induction ks) (simp_all add: fl_sum_def)

lemma fl_pow_nat:
  assumes "0 \<le> c" and "0 < k"
  shows "fl_pow (Fin c) (Fin (real k)) = Fin (c ^ k)"
proof (cases "c = 0")
  case True
  then show ?thesis using assms(2) by (simp add: pow_fin_def)
next
  case False
  then have "0 < c" using assms(1) by simp
  then show ?thesis using assms(2) by (simp add: pow_fin_def powr_realpow)
qed

lemma penalty_formula_list:
  "penalty_formula rho n
   = sqrt (1 + 2 * (\<Sum>k\<leftarrow>[1..<n]. (real (n - k) / real n) * rho ^ k))"
proof -
  have "{1..n - 1} = set [1..<n]" by auto
  then show ?thesis
    by (simp only: penalty_formula_def interv_sum_list_conv_sum_set_nat)
qed

lemma autocorr_penalty_of_coef:
  assumes "corrcoef (butlast (clean returns)) (tl (clean returns)) = Fin rho"
  shows "autocorr_penalty clean returns
       = Fin (penalty_formula \<bar>rho\<bar> (length (clean returns)))"
proof -
  define n where "n = length (clean returns)"
  define f where "f = (\<lambda>k. (real (n - k) / real n) * \<bar>rho\<bar> ^ k)"
  have tm: "fl_mul (fl_div (Fin (real (n - k))) (Fin (real n)))
                     (fl_pow (Fin \<bar>rho\<bar>) (Fin (real k))) = Fin (f k)"
    if "k \<in> set [1..<n]" for k
  proof -
    have k: "0 < k" and n: "0 < n" using that by auto
    have "fl_pow (Fin \<bar>rho\<bar>) (Fin (real k)) = Fin (\<bar>rho\<bar> ^ k)"
      using k by (intro fl_pow_nat) simp_all
    then have "fl_mul (fl_div (Fin (real (n - k))) (Fin (real n)))
                     (fl_pow (Fin \<bar>rho\<bar>) (Fin (real k)))
        = fl_mul (fl_div (Fin (real (n - k))) (Fin (real n))) (Fin (\<bar>rho\<bar> ^ k))"
      by (simp only:)
    then show ?thesis using n by (simp add: f_def)
  qed
  have "map (\<lambda>k. fl_mul (fl_div (Fin (real (n - k))) (Fin (real n)))
                     (fl_pow (Fin \<bar>rho\<bar>) (Fin (real k)))) [1..<n]
        = map (\<lambda>k. Fin (f k)) [1..<n]"
    using tm by (intro map_cong) auto
  then have "autocorr_penalty clean returns
      = fl_sqrt (fl_add (Fin 1) (fl_mul (Fin 2) (fl_sum (map (\<lambda>k. Fin (f k)) [1..<n]))))"
    by (simp only: autocorr_penalty_def Let_def count_def assms fl_abs.simps n_def [symmetric])
  also have "\<dots> = fl_sqrt (Fin (1 + 2 * sum_list (map f [1..<n])))"
    by (simp add: fl_sum_Fin)
  also have "\<dots> = Fin (sqrt (1 + 2 * sum_list (map f [1..<n])))"
  proof -
    have "0 \<le> sum_list (map f [1..<n])"
      by (auto intro!: sum_list_nonneg simp: f_def)
    then show ?thesis by simp
  qed
  finally show ?thesis
    by (simp add: penalty_formula_list f_def n_def)
qed

lemma autocorr_penalty_pearson:
  assumes "non_constant (butlast (clean returns))" and "non_constant (tl (clean returns))"
  shows "autocorr_penalty clean returns
       = Fin (penalty_formula \<bar>lag1_autocorr (clean returns)\<bar> (length (clean returns)))"
proof -
  have "length (butlast (clean returns)) = length (tl (clean returns))" by simp
  then have "corrcoef (butlast (clean returns)) (tl (clean returns))
      = Fin (pearson (butlast (clean returns)) (tl (clean returns)))"
    using assms by (rule corrcoef_pearson)
  then show ?thesis
    unfolding lag1_autocorr_def by (rule autocorr_penalty_of_coef)
qed

lemma lag1_alternating: "lag1_autocorr [1, - 1, 1] = - 1"
  by (simp add: lag1_autocorr_def pearson_def)

lemma upt_1_3: "[Suc 0..<3] = [1, 2]"
  by code_simp

lemma penalty_formula_one: "penalty_formula 1 3 = sqrt 3"
  by (simp add: penalty_formula_list upt_1_3)

lemma penalty_formula_minus_one: "penalty_formula (- 1) 3 = sqrt (1 / 3)"
  by (simp add: penalty_formula_list upt_1_3)

text \<open>
  Claim C2, as stated: the coefficient enters the formula with its sign. The column
  1, -1, 1 has lag-1 correlation -1, for which the formula gives \<open>sqrt(1/3)\<close>;
  \<open>autocorr_penalty\<close> returns \<open>sqrt 3\<close>, the value of the formula at +1.
\<close>

theorem autocorr_penalty_sign_counterexample:
  "autocorr_penalty utils_clean [1, - 1, 1] = Fin (sqrt 3)
   \<and> penalty_formula (lag1_autocorr [1, - 1, 1]) (length [1, - 1, 1 :: real]) = sqrt (1 / 3)
   \<and> sqrt 3 \<noteq> sqrt (1 / 3 :: real)"
proof -
  have len3: "length [1, - 1, 1 :: real] = 3" by simp
  have "non_constant [1, - 1]" "non_constant [- 1, 1]"
    by (auto simp: non_constant_def)
  then have "autocorr_penalty utils_clean [1, - 1, 1]
      = Fin (penalty_formula \<bar>lag1_autocorr (utils_clean [1, - 1, 1])\<bar>
               (length (utils_clean [1, - 1, 1])))"
    by (intro autocorr_penalty_pearson) (simp_all add: utils_clean_def)
  then have "autocorr_penalty utils_clean [1, - 1, 1] = Fin (penalty_formula 1 3)"
    by (simp only: utils_clean_def lag1_alternating len3 abs_minus abs_one)
  then have a: "autocorr_penalty utils_clean [1, - 1, 1] = Fin (sqrt 3)"
    by (simp only: penalty_formula_one)
  have b: "penalty_formula (lag1_autocorr [1, - 1, 1]) (length [1, - 1, 1 :: real])
         = sqrt (1 / 3)"
    by (simp only: lag1_alternating len3 penalty_formula_minus_one)
  have c: "sqrt 3 \<noteq> sqrt (1 / 3 :: real)" by simp
  show ?thesis using a b c by blast
qed

text \<open>
  Claim C2, amended: when the lag-1 correlation \<open>rho\<close> of the (cleaned) column is
  defined, that is when neither the column without its last entry nor the column
  without its first is constant (so \<open>n \<ge> 3\<close>), \<open>autocorr_penalty\<close> returns
  \<open>sqrt(1 + 2 * sum_{k=1}^{n-1} ((n-k)/n) * |rho|^k)\<close>: the Pearson coefficient enters
  by its absolute value.
\<close>

theorem autocorr_penalty_formula:
  assumes "non_constant (butlast (clean returns))" and "non_constant (tl (clean returns))"
  shows "autocorr_penalty clean returns
       = Fin (penalty_formula \<bar>lag1_autocorr (clean returns)\<bar> (length (clean returns)))"
  using assms by (rule autocorr_penalty_pearson)

text \<open>The column 0, 1, 0 has lag-1 correlation -1 and penalty \<open>sqrt 3\<close>.\<close>

theorem autocorr_penalty_formula_witness:
  "non_constant (butlast (utils_clean [0, 1, 0])) \<and> non_constant (tl (utils_clean [0, 1, 0]))
   \<and> lag1_autocorr [0, 1, 0] = - 1
   \<and> autocorr_penalty utils_clean [0, 1, 0] = Fin (sqrt 3)"
proof -
  have a: "non_constant (butlast (utils_clean [0, 1, 0]))"
    by (auto simp: non_constant_def utils_clean_def)
  have b: "non_constant (tl (utils_clean [0, 1, 0]))"
    by (auto simp: non_constant_def utils_clean_def)
  have c: "lag1_autocorr [0, 1, 0] = - 1"
    by (simp add: lag1_autocorr_def pearson_def power2_eq_square)
  have len3: "length [0, 1, 0 :: real] = 3" by simp
  have "autocorr_penalty utils_clean [0, 1, 0]
      = Fin (penalty_formula \<bar>lag1_autocorr (utils_clean [0, 1, 0])\<bar>
               (length (utils_clean [0, 1, 0])))"
    using a b by (rule autocorr_penalty_formula)
  then have "autocorr_penalty utils_clean [0, 1, 0] = Fin (penalty_formula 1 3)"
    by (simp only: utils_clean_def c len3 abs_minus abs_one)
  then have d: "autocorr_penalty utils_clean [0, 1, 0] = Fin (sqrt 3)"
    by (simp only: penalty_formula_one)
  show ?thesis using a b c d by blast
qed

end
